theory Spec2Isabelle
  imports Complex_Main
begin

section \<open>Python strings: \<open>str.split\<close> and \<open>str.join\<close>\<close>

text \<open>
  A Python \<open>str\<close> is modelled as a \<open>string\<close>, one \<open>char\<close> for each character of the
  text (keys, strategy names and contract ids are plain ASCII). \<open>s.split(sep)\<close> with a
  one-character separator cuts \<open>s\<close> at every occurrence of the separator and never
  returns an empty list: \<open>"".split("_") == [""]\<close>. \<open>sep.join(ws)\<close> concatenates the
  items with the separator between them; \<open>sep.join([]) == ""\<close>.
\<close>

fun split_str :: "char \<Rightarrow> string \<Rightarrow> string list" where
  "split_str sep [] = ['''']"
| "split_str sep (c # cs) =
     (if c = sep then '''' # split_str sep cs
      else (case split_str sep cs of
              w # ws \<Rightarrow> (c # w) # ws
            | [] \<Rightarrow> [c # []]))"

fun join_str :: "string \<Rightarrow> string list \<Rightarrow> string" where
  "join_str sep [] = []"
| "join_str sep [w] = w"
| "join_str sep (w # v # ws) = w @ sep @ join_str sep (v # ws)"

section \<open>Exceptions and the named result objects\<close>

text \<open>
  Every \<open>raise\<close> of the source is a value. The messages of the source's
  \<open>Exception(...)\<close> are kept as constructors carrying the formatted arguments.
  \<open>ValueError\<close> is what unpacking \<open>key.split("/")\<close> into three names raises when the
  list has not exactly three items; \<open>TypeError\<close> is what \<open>"/".join\<close> raises on an item
  that is \<open>None\<close>.
\<close>

datatype named_object = success | failure | missing_order | duplicate_order

datatype py_exception = ValueError | TypeError | Exception exception_message
and exception_message =
    Wrong_arguments
  | Already_controlled_by string
  | Cant_add_order_doesnt_exist int
  | Couldnt_add_controlling_algo py_exception string int
  | When_trying_to_add named_object int
  | Cant_release_order_doesnt_exist int

section \<open>contractTradeableObject\<close>

record contractTradeableObject =
  strategy_name :: string
  instrument_code :: string
  contract_id :: "string list"

text \<open>The constructor takes a single contract id (a \<open>str\<close>) or a list of them.\<close>

datatype contract_id_arg = Id_str string | Id_list "string list"

fun contractTradeableObject_init ::
  "string \<Rightarrow> string \<Rightarrow> contract_id_arg \<Rightarrow> contractTradeableObject" where
  "contractTradeableObject_init strategy instrument (Id_str c) =
     \<lparr>strategy_name = strategy, instrument_code = instrument, contract_id = [c]\<rparr>"
| "contractTradeableObject_init strategy instrument (Id_list cs) =
     \<lparr>strategy_name = strategy, instrument_code = instrument, contract_id = cs\<rparr>"

definition from_key :: "string \<Rightarrow> py_exception + contractTradeableObject" where
  "from_key k =
     (case split_str CHR ''/'' k of
        [strategy, instrument, contract_id_str] \<Rightarrow>
          Inr (contractTradeableObject_init strategy instrument
                 (Id_list (split_str CHR ''_'' contract_id_str)))
      | _ \<Rightarrow> Inl ValueError)"

definition contract_id_key :: "contractTradeableObject \<Rightarrow> string" where
  "contract_id_key t = join_str ''_'' (contract_id t)"

text \<open>
  \<open>alt_contract_id_key\<close> has two \<open>if\<close>s and no final \<open>return\<close>: for a key of any other
  length the Python property returns \<open>None\<close>.
\<close>

definition alt_contract_id_key :: "contractTradeableObject \<Rightarrow> string option" where
  "alt_contract_id_key t =
     (if length (contract_id_key t) = 6 then Some (contract_id_key t @ ''00'')
      else if length (contract_id_key t) = 8 then Some (take 6 (contract_id_key t))
      else None)"

definition key :: "contractTradeableObject \<Rightarrow> string" where
  "key t = join_str ''/'' [strategy_name t, instrument_code t, contract_id_key t]"

definition alt_key :: "contractTradeableObject \<Rightarrow> py_exception + string" where
  "alt_key t =
     (case alt_contract_id_key t of
        None \<Rightarrow> Inl TypeError
      | Some alt \<Rightarrow> Inr (join_str ''/'' [strategy_name t, instrument_code t, alt]))"

section \<open>contractOrder\<close>

text \<open>
  A \<open>datetime\<close> is only stored and compared with \<open>None\<close>; it is a timestamp in
  seconds. Prices are Python floats that are only stored, never computed with.
\<close>

type_synonym datetime = int

text \<open>
  Modelled from the spec: the constant \<open>MODIFICATION_STATUS_NO_MODIFICATION\<close> comes from
  \<open>sysexecution.base_orders\<close>, which is not among the source files. The spec lists the
  states of the modification workflow: no-modification, requested, on-stack, completed,
  failed.
\<close>

datatype modification_status =
    No_modification
  | Modification_requested
  | Modification_on_stack
  | Modification_completed
  | Modification_failed

text \<open>
  The sentinels \<open>no_order_id\<close> and \<open>no_parent\<close> of \<open>base_orders\<close> are \<open>None\<close> of an
  option type, \<open>no_children\<close> is the empty list; \<open>none_to_object(x, sentinel)\<close> is then
  the identity.
\<close>

record order_info =
  algo_to_use :: string
  reference_price :: "real option"
  limit_price :: "real option"
  manual_trade :: bool
  manual_fill :: bool
  roll_order :: bool
  calendar_spread_order :: bool
  inter_spread_order :: bool
  generated_datetime :: datetime
  reference_of_controlling_algo :: "string option"

record contractOrder =
  tradeable_object :: contractTradeableObject
  trade :: "int list"
  fill :: "int list"
  fill_datetime :: "datetime option"
  filled_price :: "real option"
  locked :: bool
  order_id :: "int option"
  modification_status :: modification_status
  modification_quantity :: "int list option"
  parent :: "int option"
  children :: "int list"
  active :: bool
  order_info :: order_info

text \<open>
  The trade argument is an \<open>int\<close>, a \<open>float\<close> or a list of \<open>int\<close>. \<open>int(x)\<close> of a
  (finite) float truncates towards zero.
\<close>

datatype trade_arg = Trade_int int | Trade_float real | Trade_list "int list"

definition py_int_of_float :: "real \<Rightarrow> int" where
  "py_int_of_float x = (if 0 \<le> x then \<lfloor>x\<rfloor> else \<lceil>x\<rceil>)"

fun trade_as_list :: "trade_arg \<Rightarrow> int list" where
  "trade_as_list (Trade_int n) = [n]"
| "trade_as_list (Trade_float x) = [py_int_of_float x]"
| "trade_as_list (Trade_list ns) = ns"

text \<open>
  The positional arguments \<open>*args\<close>: two of them (a key and the trade), four of them
  (strategy, instrument, contract id, trade), or any other number.
\<close>

datatype order_args =
    Args_key string trade_arg
  | Args_parts string string contract_id_arg trade_arg
  | Args_other

text \<open>\<open>_resolve_args\<close> of the source.\<close>

fun resolve_args :: "order_args \<Rightarrow> py_exception + (contractTradeableObject \<times> trade_arg)" where
  "resolve_args (Args_key k tr) =
     (case from_key k of Inl e \<Rightarrow> Inl e | Inr t \<Rightarrow> Inr (t, tr))"
| "resolve_args (Args_parts strategy instrument cid tr) =
     Inr (contractTradeableObject_init strategy instrument cid, tr)"
| "resolve_args Args_other = Inl (Exception Wrong_arguments)"

text \<open>The keyword arguments of \<open>contractOrder.__init__\<close>, and their defaults.\<close>

record order_kwargs =
  kw_fill :: "int list option"
  kw_locked :: bool
  kw_order_id :: "int option"
  kw_modification_status :: modification_status
  kw_modification_quantity :: "int list option"
  kw_parent :: "int option"
  kw_children :: "int list"
  kw_active :: bool
  kw_algo_to_use :: string
  kw_reference_price :: "real option"
  kw_limit_price :: "real option"
  kw_filled_price :: "real option"
  kw_fill_datetime :: "datetime option"
  kw_generated_datetime :: "datetime option"
  kw_manual_fill :: bool
  kw_manual_trade :: bool
  kw_roll_order :: bool
  kw_inter_spread_order :: bool
  kw_calendar_spread_order :: "bool option"
  kw_reference_of_controlling_algo :: "string option"

definition default_kwargs :: order_kwargs where
  "default_kwargs =
     \<lparr>kw_fill = None, kw_locked = False, kw_order_id = None,
      kw_modification_status = No_modification, kw_modification_quantity = None,
      kw_parent = None, kw_children = [], kw_active = True, kw_algo_to_use = [],
      kw_reference_price = None, kw_limit_price = None, kw_filled_price = None,
      kw_fill_datetime = None, kw_generated_datetime = None, kw_manual_fill = False,
      kw_manual_trade = False, kw_roll_order = False, kw_inter_spread_order = False,
      kw_calendar_spread_order = None, kw_reference_of_controlling_algo = None\<rparr>"

text \<open>
  \<open>contractOrder.__init__\<close>. The first argument is what \<open>datetime.datetime.now()\<close>
  returns at the call.
\<close>

definition contractOrder_init ::
  "datetime \<Rightarrow> order_args \<Rightarrow> order_kwargs \<Rightarrow> py_exception + contractOrder" where
  "contractOrder_init now args kw =
     (case resolve_args args of
        Inl e \<Rightarrow> Inl e
      | Inr (tradeable, tr) \<Rightarrow>
          (let trade_list = trade_as_list tr;
               fill_list = (case kw_fill kw of
                              None \<Rightarrow> replicate (length trade_list) 0
                            | Some f \<Rightarrow> f);
               calendar_spread = (if length trade_list = 1 then False else True);
               generated = (case kw_generated_datetime kw of
                              None \<Rightarrow> now
                            | Some d \<Rightarrow> d)
           in Inr \<lparr>tradeable_object = tradeable,
                   trade = trade_list,
                   fill = fill_list,
                   fill_datetime = kw_fill_datetime kw,
                   filled_price = kw_filled_price kw,
                   locked = kw_locked kw,
                   order_id = kw_order_id kw,
                   modification_status = kw_modification_status kw,
                   modification_quantity = kw_modification_quantity kw,
                   parent = kw_parent kw,
                   children = kw_children kw,
                   active = kw_active kw,
                   order_info =
                     \<lparr>algo_to_use = kw_algo_to_use kw,
                      reference_price = kw_reference_price kw,
                      limit_price = kw_limit_price kw,
                      manual_trade = kw_manual_trade kw,
                      manual_fill = kw_manual_fill kw,
                      roll_order = kw_roll_order kw,
                      calendar_spread_order = calendar_spread,
                      inter_spread_order = kw_inter_spread_order kw,
                      generated_datetime = generated,
                      reference_of_controlling_algo =
                        kw_reference_of_controlling_algo kw\<rparr>\<rparr>))"

text \<open>
  The flat mapping \<open>from_dict\<close> reads: the twelve entries it pops, and the rest, which it
  passes on as keyword arguments (\<open>**order_info\<close>).
\<close>

record order_as_dict =
  d_trade :: trade_arg
  d_key :: string
  d_fill :: "int list option"
  d_filled_price :: "real option"
  d_fill_datetime :: "datetime option"
  d_locked :: bool
  d_order_id :: "int option"
  d_modification_status :: modification_status
  d_modification_quantity :: "int list option"
  d_parent :: "int option"
  d_children :: "int list"
  d_active :: bool
  d_algo_to_use :: string
  d_reference_price :: "real option"
  d_limit_price :: "real option"
  d_manual_trade :: bool
  d_manual_fill :: bool
  d_roll_order :: bool
  d_calendar_spread_order :: "bool option"
  d_inter_spread_order :: bool
  d_generated_datetime :: "datetime option"
  d_reference_of_controlling_algo :: "string option"

definition from_dict :: "datetime \<Rightarrow> order_as_dict \<Rightarrow> py_exception + contractOrder" where
  "from_dict now d =
     contractOrder_init now (Args_key (d_key d) (d_trade d))
       \<lparr>kw_fill = d_fill d, kw_locked = d_locked d, kw_order_id = d_order_id d,
        kw_modification_status = d_modification_status d,
        kw_modification_quantity = d_modification_quantity d,
        kw_parent = d_parent d, kw_children = d_children d, kw_active = d_active d,
        kw_algo_to_use = d_algo_to_use d,
        kw_reference_price = d_reference_price d, kw_limit_price = d_limit_price d,
        kw_filled_price = d_filled_price d, kw_fill_datetime = d_fill_datetime d,
        kw_generated_datetime = d_generated_datetime d,
        kw_manual_fill = d_manual_fill d, kw_manual_trade = d_manual_trade d,
        kw_roll_order = d_roll_order d, kw_inter_spread_order = d_inter_spread_order d,
        kw_calendar_spread_order = d_calendar_spread_order d,
        kw_reference_of_controlling_algo = d_reference_of_controlling_algo d\<rparr>"

subsection \<open>Methods of an order\<close>

text \<open>
  A method that mutates the order returns the order as it is after the call, next to
  what the call returns or raises.
\<close>

definition algo_to_use_setter :: "contractOrder \<Rightarrow> string \<Rightarrow> contractOrder" where
  "algo_to_use_setter ord a = ord\<lparr>order_info := (order_info ord)\<lparr>algo_to_use := a\<rparr>\<rparr>"

definition reference_price_setter :: "contractOrder \<Rightarrow> real option \<Rightarrow> contractOrder" where
  "reference_price_setter ord p = ord\<lparr>order_info := (order_info ord)\<lparr>reference_price := p\<rparr>\<rparr>"

definition limit_price_setter :: "contractOrder \<Rightarrow> real option \<Rightarrow> contractOrder" where
  "limit_price_setter ord p = ord\<lparr>order_info := (order_info ord)\<lparr>limit_price := p\<rparr>\<rparr>"

definition manual_fill_setter :: "contractOrder \<Rightarrow> bool \<Rightarrow> contractOrder" where
  "manual_fill_setter ord b = ord\<lparr>order_info := (order_info ord)\<lparr>manual_fill := b\<rparr>\<rparr>"

definition is_order_controlled_by_algo :: "contractOrder \<Rightarrow> bool" where
  "is_order_controlled_by_algo ord = (reference_of_controlling_algo (order_info ord) \<noteq> None)"

definition add_controlling_algo_ref ::
  "contractOrder \<Rightarrow> string option \<Rightarrow> (py_exception + named_object) \<times> contractOrder" where
  "add_controlling_algo_ref ord control_algo_ref =
     (case reference_of_controlling_algo (order_info ord) of
        Some current \<Rightarrow> (Inl (Exception (Already_controlled_by current)), ord)
      | None \<Rightarrow>
          (Inr success,
           ord\<lparr>order_info :=
                 (order_info ord)\<lparr>reference_of_controlling_algo := control_algo_ref\<rparr>\<rparr>))"

definition release_order_from_algo_control :: "contractOrder \<Rightarrow> contractOrder" where
  "release_order_from_algo_control ord =
     ord\<lparr>order_info := (order_info ord)\<lparr>reference_of_controlling_algo := None\<rparr>\<rparr>"

text \<open>\<open>all([x==y for x,y in zip(my_trade, other_trade)])\<close>: \<open>zip\<close> stops at the shorter list.\<close>

definition same_trade_size :: "contractOrder \<Rightarrow> contractOrder \<Rightarrow> bool" where
  "same_trade_size ord other = list_all (\<lambda>(x, y). x = y) (zip (trade ord) (trade other))"

section \<open>The order stack\<close>

subsection \<open>The base class \<open>orderStackData\<close>\<close>

text \<open>
  Modelled from the spec: the base classes \<open>orderStackData\<close>
  (\<open>sysexecution.order_stack\<close>) and \<open>Order\<close> (\<open>sysexecution.base_orders\<close>) are not among
  the source files. What follows in this subsection is written from the spec's words:
  the stack is "a mapping from order_id (unique, stack-assigned, monotonically
  increasing) to Order", kept here as an association list in insertion order with the
  next id to assign.

  The field \<open>journal\<close> is a ghost of the model, not data of the program: every method of
  the base class appends the call it receives, so that a theorem can say which calls a
  method of \<open>contractOrderStackData\<close> makes, and in which order.
\<close>

datatype stack_call =
    Get_order int
  | Put_order contractOrder
  | Unlock_order int
  | Deactivate_order int
  | Remove_order int
  | Change_order int contractOrder bool

record orderStackData =
  stack :: "(int \<times> contractOrder) list"
  next_id :: int
  journal :: "stack_call list"

definition record_call :: "stack_call \<Rightarrow> orderStackData \<Rightarrow> orderStackData" where
  "record_call c s = s\<lparr>journal := journal s @ [c]\<rparr>"

definition update_order ::
  "int \<Rightarrow> (contractOrder \<Rightarrow> contractOrder) \<Rightarrow> (int \<times> contractOrder) list
     \<Rightarrow> (int \<times> contractOrder) list" where
  "update_order oid f st = map (\<lambda>(i, ord). if i = oid then (i, f ord) else (i, ord)) st"

definition delete_order ::
  "int \<Rightarrow> (int \<times> contractOrder) list \<Rightarrow> (int \<times> contractOrder) list" where
  "delete_order oid st = filter (\<lambda>(i, ord). i \<noteq> oid) st"

text \<open>
  Modelled from the spec: \<open>Order.lock_order\<close> ("every order in the batch is locked
  before insertion").
\<close>

definition lock_order :: "contractOrder \<Rightarrow> contractOrder" where
  "lock_order ord = ord\<lparr>locked := True\<rparr>"

text \<open>
  Modelled from the spec: \<open>get_order_with_id_from_stack\<close>, the store's
  "get(id) -> Order | not-found"; \<open>None\<close> is the sentinel \<open>missing_order\<close>.
\<close>

definition get_order_with_id_from_stack ::
  "orderStackData \<Rightarrow> int \<Rightarrow> contractOrder option \<times> orderStackData" where
  "get_order_with_id_from_stack s oid = (map_of (stack s) oid, record_call (Get_order oid) s)"

text \<open>
  Modelled from the spec: \<open>put_order_on_stack\<close> "allocates a fresh id, stores the
  order, returns the id. Fails with a duplicate condition if an order with the same
  TradeableObject key and matching trade vector [is] already active on the stack".
\<close>

definition duplicates :: "contractOrder \<Rightarrow> contractOrder \<Rightarrow> bool" where
  "duplicates new_order existing =
     (active existing \<and>
      key (tradeable_object existing) = key (tradeable_object new_order) \<and>
      same_trade_size existing new_order)"

definition put_order_on_stack ::
  "orderStackData \<Rightarrow> contractOrder \<Rightarrow> (named_object + int) \<times> orderStackData" where
  "put_order_on_stack s new_order =
     (let s1 = record_call (Put_order new_order) s in
      if list_ex (\<lambda>(i, existing). duplicates new_order existing) (stack s1)
      then (Inl duplicate_order, s1)
      else (Inr (next_id s1),
            s1\<lparr>stack := stack s1 @ [(next_id s1, new_order\<lparr>order_id := Some (next_id s1)\<rparr>)],
               next_id := next_id s1 + 1\<rparr>))"

text \<open>
  Modelled from the spec: \<open>_unlock_order_on_stack\<close> ("force-unlock"), \<open>deactivate_order\<close>
  ("mark inactive") and \<open>remove_order_with_id_from_stack\<close> ("physically remove it from
  the stack"; the store's "remove(id) -> success | error"). On an id that is not on the
  stack they change nothing and return \<open>missing_order\<close>.
\<close>

definition unlock_order_on_stack ::
  "orderStackData \<Rightarrow> int \<Rightarrow> named_object \<times> orderStackData" where
  "unlock_order_on_stack s oid =
     (let s1 = record_call (Unlock_order oid) s in
      case map_of (stack s1) oid of
        None \<Rightarrow> (missing_order, s1)
      | Some existing \<Rightarrow>
          (success, s1\<lparr>stack := update_order oid (\<lambda>ord. ord\<lparr>locked := False\<rparr>) (stack s1)\<rparr>))"

definition deactivate_order ::
  "orderStackData \<Rightarrow> int \<Rightarrow> named_object \<times> orderStackData" where
  "deactivate_order s oid =
     (let s1 = record_call (Deactivate_order oid) s in
      case map_of (stack s1) oid of
        None \<Rightarrow> (missing_order, s1)
      | Some existing \<Rightarrow>
          (success, s1\<lparr>stack := update_order oid (\<lambda>ord. ord\<lparr>active := False\<rparr>) (stack s1)\<rparr>))"

definition remove_order_with_id_from_stack ::
  "orderStackData \<Rightarrow> int \<Rightarrow> named_object \<times> orderStackData" where
  "remove_order_with_id_from_stack s oid =
     (let s1 = record_call (Remove_order oid) s in
      case map_of (stack s1) oid of
        None \<Rightarrow> (missing_order, s1)
      | Some existing \<Rightarrow> (success, s1\<lparr>stack := delete_order oid (stack s1)\<rparr>))"

text \<open>
  Modelled from the spec: \<open>_change_order_on_stack\<close> "replaces the stored order at id with
  new_order. When the check flag is true, the update must fail if the stored order's
  modification_status indicates an in-flight modification [...]. When false, the update
  is forced through regardless". A modification is taken to be in flight when it is
  requested or on the stack.
\<close>

definition modification_in_flight :: "contractOrder \<Rightarrow> bool" where
  "modification_in_flight ord =
     (modification_status ord = Modification_requested \<or>
      modification_status ord = Modification_on_stack)"

definition change_order_on_stack ::
  "orderStackData \<Rightarrow> int \<Rightarrow> contractOrder \<Rightarrow> bool \<Rightarrow> named_object \<times> orderStackData" where
  "change_order_on_stack s oid new_order check_if_orders_being_modified =
     (let s1 = record_call (Change_order oid new_order check_if_orders_being_modified) s in
      case map_of (stack s1) oid of
        None \<Rightarrow> (missing_order, s1)
      | Some existing \<Rightarrow>
          if check_if_orders_being_modified \<and> modification_in_flight existing
          then (failure, s1)
          else (success, s1\<lparr>stack := update_order oid (\<lambda>ord. new_order) (stack s1)\<rparr>))"

text \<open>
  Modelled from the spec: ids are "unique" and "never reused", so every id on the stack
  is below the next id to assign.
\<close>

definition ids_below_next :: "orderStackData \<Rightarrow> bool" where
  "ids_below_next s = list_all (\<lambda>(i, ord). i < next_id s) (stack s)"

subsection \<open>\<open>contractOrderStackData\<close>\<close>

text \<open>
  From here on the definitions follow the source. The logger is a collaborator without
  effect on the stack and is left out. \<open>contract_order.lock_order()\<close> also locks the
  caller's own order object; the model keeps what reaches the stack.

  The \<open>for\<close> loop of \<open>put_list_of_orders_on_stack\<close>: it returns the status, the list of
  child ids and the stack as they are when the loop is left.
\<close>

fun insert_loop ::
  "orderStackData \<Rightarrow> contractOrder list \<Rightarrow> int list
     \<Rightarrow> named_object \<times> int list \<times> orderStackData" where
  "insert_loop s [] list_of_child_ids = (success, list_of_child_ids, s)"
| "insert_loop s (contract_order # rest) list_of_child_ids =
     (case put_order_on_stack s (lock_order contract_order) of
        (Inl not_an_id, s1) \<Rightarrow> (failure, list_of_child_ids, s1)
      | (Inr child_id, s1) \<Rightarrow> insert_loop s1 rest (list_of_child_ids @ [child_id]))"

fun rollback_list_of_orders_on_stack ::
  "orderStackData \<Rightarrow> int list \<Rightarrow> named_object \<times> orderStackData" where
  "rollback_list_of_orders_on_stack s [] = (success, s)"
| "rollback_list_of_orders_on_stack s (oid # rest) =
     (let s1 = snd (unlock_order_on_stack s oid);
          s2 = snd (deactivate_order s1 oid);
          s3 = snd (remove_order_with_id_from_stack s2 oid)
      in rollback_list_of_orders_on_stack s3 rest)"

fun unlock_list_of_orders ::
  "orderStackData \<Rightarrow> int list \<Rightarrow> named_object \<times> orderStackData" where
  "unlock_list_of_orders s [] = (success, s)"
| "unlock_list_of_orders s (oid # rest) =
     unlock_list_of_orders (snd (unlock_order_on_stack s oid)) rest"

definition put_list_of_orders_on_stack ::
  "orderStackData \<Rightarrow> contractOrder list \<Rightarrow> bool
     \<Rightarrow> (named_object + int list) \<times> orderStackData" where
  "put_list_of_orders_on_stack s list_of_contract_orders unlock_when_finished =
     (if length list_of_contract_orders = 0 then (Inr [], s)
      else
        (case insert_loop s list_of_contract_orders [] of
           (status, list_of_child_ids, s1) \<Rightarrow>
             if status = failure
             then (Inl failure, snd (rollback_list_of_orders_on_stack s1 list_of_child_ids))
             else if unlock_when_finished
             then (Inr list_of_child_ids, snd (unlock_list_of_orders s1 list_of_child_ids))
             else (Inr list_of_child_ids, s1)))"

text \<open>
  The two methods below carry the prefix \<open>stack_\<close>: their names are those of the
  order's own methods. \<open>copy(existing_order)\<close> is a shallow copy; the model works on
  values, and the stored order is replaced by \<open>_change_order_on_stack\<close> only. The body of
  the \<open>try\<close> in \<open>release_order_from_algo_control\<close> cannot raise.
\<close>

definition stack_release_order_from_algo_control ::
  "orderStackData \<Rightarrow> int \<Rightarrow> (py_exception + named_object) \<times> orderStackData" where
  "stack_release_order_from_algo_control s oid =
     (case get_order_with_id_from_stack s oid of
        (None, s1) \<Rightarrow> (Inl (Exception (Cant_release_order_doesnt_exist oid)), s1)
      | (Some existing_order, s1) \<Rightarrow>
          if \<not> is_order_controlled_by_algo existing_order then (Inr success, s1)
          else
            (case change_order_on_stack s1 oid
                    (release_order_from_algo_control existing_order) False of
               (result, s2) \<Rightarrow>
                 if result \<noteq> success
                 then (Inl (Exception (When_trying_to_add result oid)), s2)
                 else (Inr success, s2)))"

definition stack_add_controlling_algo_ref ::
  "orderStackData \<Rightarrow> int \<Rightarrow> string option
     \<Rightarrow> (py_exception + named_object) \<times> orderStackData" where
  "stack_add_controlling_algo_ref s oid control_algo_ref =
     (case control_algo_ref of
        None \<Rightarrow> stack_release_order_from_algo_control s oid
      | Some new_ref \<Rightarrow>
          (case get_order_with_id_from_stack s oid of
             (None, s1) \<Rightarrow> (Inl (Exception (Cant_add_order_doesnt_exist oid)), s1)
           | (Some existing_order, s1) \<Rightarrow>
               (case add_controlling_algo_ref existing_order (Some new_ref) of
                  (Inl e, unmodified) \<Rightarrow>
                    (Inl (Exception (Couldnt_add_controlling_algo e new_ref oid)), s1)
                | (Inr ok, modified_order) \<Rightarrow>
                    (case change_order_on_stack s1 oid modified_order False of
                       (result, s2) \<Rightarrow>
                         if result \<noteq> success
                         then (Inl (Exception (When_trying_to_add result oid)), s2)
                         else (Inr success, s2)))))"

subsection \<open>The calls of a rollback\<close>

text \<open>What \<open>rollback_list_of_orders_on_stack\<close> asks of the base class for one id.\<close>

definition rollback_calls :: "int \<Rightarrow> stack_call list" where
  "rollback_calls oid = [Unlock_order oid, Deactivate_order oid, Remove_order oid]"

section \<open>Example inputs\<close>

text \<open>
  A single-leg order of strategy \<open>stratA\<close> on \<open>EDOLLAR\<close> that is not on any stack yet,
  the same order under the control of \<open>algo_1\<close> with id 0, a stack that holds one order,
  and the flat mapping of a two-leg order whose stored fill has one entry.
\<close>

definition example_order :: "string \<Rightarrow> int \<Rightarrow> contractOrder" where
  "example_order contract quantity =
     \<lparr>tradeable_object =
        \<lparr>strategy_name = ''stratA'', instrument_code = ''EDOLLAR'', contract_id = [contract]\<rparr>,
      trade = [quantity], fill = [0], fill_datetime = None, filled_price = None,
      locked = False, order_id = None, modification_status = No_modification,
      modification_quantity = None, parent = None, children = [], active = True,
      order_info =
        \<lparr>algo_to_use = [], reference_price = None, limit_price = None,
         manual_trade = False, manual_fill = False, roll_order = False,
         calendar_spread_order = False, inter_spread_order = False,
         generated_datetime = 0, reference_of_controlling_algo = None\<rparr>\<rparr>"

definition uncontrolled_order :: contractOrder where
  "uncontrolled_order = (example_order ''201903'' 10)\<lparr>order_id := Some 0\<rparr>"

definition controlled_order :: contractOrder where
  "controlled_order =
     uncontrolled_order\<lparr>order_info :=
       (order_info uncontrolled_order)\<lparr>reference_of_controlling_algo := Some ''algo_1''\<rparr>\<rparr>"

definition stack_of :: "contractOrder \<Rightarrow> orderStackData" where
  "stack_of ord = \<lparr>stack = [(0, ord)], next_id = 1, journal = []\<rparr>"

definition spread_dict_short_fill :: order_as_dict where
  "spread_dict_short_fill =
     \<lparr>d_trade = Trade_list [6, - 6], d_key = ''stratA/EDOLLAR/201903_201906'',
      d_fill = Some [0], d_filled_price = None, d_fill_datetime = None, d_locked = False,
      d_order_id = None, d_modification_status = No_modification,
      d_modification_quantity = None, d_parent = None, d_children = [], d_active = True,
      d_algo_to_use = [], d_reference_price = None, d_limit_price = None,
      d_manual_trade = False, d_manual_fill = False, d_roll_order = False,
      d_calendar_spread_order = None, d_inter_spread_order = False,
      d_generated_datetime = None, d_reference_of_controlling_algo = None\<rparr>"

section \<open>Facts about splitting and joining\<close>

lemma split_str_not_Nil: "split_str sep s \<noteq> []"
  by (induction s) (auto split: list.splits)

lemma join_split_str: "join_str [sep] (split_str sep s) = s"
proof (induction s)
  case Nil
  show ?case by simp
next
  case (Cons c cs)
  obtain w ws where ws: "split_str sep cs = w # ws"
    using split_str_not_Nil [of sep cs] by (cases "split_str sep cs") auto
  show ?case
  proof (cases "c = sep")
    case True
    with Cons ws show ?thesis by simp
  next
    case False
    with Cons ws show ?thesis by (cases ws) auto
  qed
qed

lemma length_split_str: "length (split_str sep s) = Suc (count_list s sep)"
  by (induction s) (auto split: list.splits simp: split_str_not_Nil)

lemma split_str_three:
  "(\<exists>a b c. split_str sep s = [a, b, c]) = (count_list s sep = 2)"
proof
  assume "\<exists>a b c. split_str sep s = [a, b, c]"
  then have "length (split_str sep s) = 3" by auto
  then show "count_list s sep = 2" by (simp add: length_split_str)
next
  assume "count_list s sep = 2"
  then have "length (split_str sep s) = 3" by (simp add: length_split_str)
  then show "\<exists>a b c. split_str sep s = [a, b, c]"
    by (auto simp: length_Suc_conv numeral_3_eq_3)
qed

lemma from_key_cases:
  "from_key k = Inl ValueError \<and> count_list k CHR ''/'' \<noteq> 2 \<or>
   (\<exists>a b c. split_str CHR ''/'' k = [a, b, c] \<and> count_list k CHR ''/'' = 2 \<and>
      from_key k = Inr \<lparr>strategy_name = a, instrument_code = b,
                        contract_id = split_str CHR ''_'' c\<rparr>)"
proof (cases "count_list k CHR ''/'' = 2")
  case True
  then obtain a b c where "split_str CHR ''/'' k = [a, b, c]"
    using split_str_three [of "CHR ''/''" k] by auto
  with True show ?thesis by (simp add: from_key_def)
next
  case False
  then have "\<not> (\<exists>a b c. split_str CHR ''/'' k = [a, b, c])"
    by (simp add: split_str_three)
  then have "from_key k = Inl ValueError"
    by (auto simp: from_key_def split: list.splits)
  with False show ?thesis by simp
qed

lemma key_separators:
  "count_list (key t) CHR ''/'' =
     count_list (strategy_name t) CHR ''/'' + count_list (instrument_code t) CHR ''/'' +
     count_list (contract_id_key t) CHR ''/'' + 2"
  by (simp add: key_def)

section \<open>Keys of a tradeable object\<close>

text \<open>
  Claim C2, as amended. For every key string \<open>k\<close> with exactly two \<open>/\<close> separators,
  \<open>from_key(k)\<close> succeeds and \<open>from_key(k).key == k\<close>, whether the third part names one
  leg or several legs joined by \<open>_\<close>. By \<open>key_separators\<close> these are the keys of the
  objects whose strategy name, instrument code and legs are free of \<open>/\<close>.
\<close>

theorem from_key_round_trip:
  "count_list k CHR ''/'' = 2 \<Longrightarrow> \<exists>t. from_key k = Inr t \<and> key t = k"
proof -
  assume two: "count_list k CHR ''/'' = 2"
  with from_key_cases [of k] obtain a b c
    where parts: "split_str CHR ''/'' k = [a, b, c]"
      and parsed: "from_key k = Inr \<lparr>strategy_name = a, instrument_code = b,
                        contract_id = split_str CHR ''_'' c\<rparr>"
    by auto
  have legs: "join_str ''_'' (split_str CHR ''_'' c) = c"
    using join_split_str [of "CHR ''_''" c] by simp
  have "join_str ''/'' [a, b, c] = k"
    using join_split_str [of "CHR ''/''" k] parts by simp
  with legs have "key \<lparr>strategy_name = a, instrument_code = b,
                        contract_id = split_str CHR ''_'' c\<rparr> = k"
    by (simp add: key_def contract_id_key_def)
  with parsed show ?thesis by blast
qed

theorem from_key_round_trip_witness:
  "count_list ''stratA/EDOLLAR/201903_201906'' CHR ''/'' = 2 \<and>
   from_key ''stratA/EDOLLAR/201903_201906'' =
     Inr \<lparr>strategy_name = ''stratA'', instrument_code = ''EDOLLAR'',
          contract_id = [''201903'', ''201906'']\<rparr> \<and>
   key \<lparr>strategy_name = ''stratA'', instrument_code = ''EDOLLAR'',
          contract_id = [''201903'', ''201906'']\<rparr> = ''stratA/EDOLLAR/201903_201906''"
  using from_key_round_trip [of "''stratA/EDOLLAR/201903_201906''"]
  by (simp add: from_key_def)

text \<open>
  Claim C2 as it was stated fails: the object with strategy name \<open>a/b\<close>, instrument
  code \<open>c\<close> and the single leg \<open>201903\<close> has the key \<open>a/b/c/201903\<close>, which \<open>from_key\<close>
  rejects.
\<close>

theorem key_with_slash_in_name_counterexample:
  "contract_id \<lparr>strategy_name = ''a/b'', instrument_code = ''c'',
                contract_id = [''201903'']\<rparr> \<noteq> [] \<and>
   key \<lparr>strategy_name = ''a/b'', instrument_code = ''c'', contract_id = [''201903'']\<rparr> =
     ''a/b/c/201903'' \<and>
   from_key (key \<lparr>strategy_name = ''a/b'', instrument_code = ''c'',
                   contract_id = [''201903'']\<rparr>) = Inl ValueError"
  by (simp add: from_key_def key_def contract_id_key_def)

text \<open>
  Claim C3, as amended. \<open>from_key(s)\<close> raises \<open>ValueError\<close>, and constructs no object,
  exactly when \<open>s\<close> does not contain exactly two \<open>/\<close> separators. With exactly two it
  succeeds whatever the leg string is, and the leg list of the object is never empty.
\<close>

theorem from_key_fails_iff:
  "(from_key s = Inl ValueError) = (count_list s CHR ''/'' \<noteq> 2) \<and>
   (\<exists>t. from_key s = Inr t \<and> contract_id t \<noteq> []) = (count_list s CHR ''/'' = 2)"
  using from_key_cases [of s] by (auto simp: split_str_not_Nil)

text \<open>
  Claim C3 as it was stated fails on an empty leg string: \<open>from_key("a/b/")\<close> constructs
  the object whose only leg is the empty string.
\<close>

theorem from_key_empty_leg_string_counterexample:
  "from_key ''a/b/'' =
     Inr \<lparr>strategy_name = ''a'', instrument_code = ''b'', contract_id = ['''']\<rparr>"
  by (simp add: from_key_def)

text \<open>
  Claim C4 says that \<open>alt_key\<close> converts every leg and is total on spread objects. The
  code measures the joined legs: for the spread \<open>201903_201906\<close> the length is 13,
  \<open>alt_contract_id_key\<close> is \<open>None\<close> and \<open>alt_key\<close> raises \<open>TypeError\<close>.
\<close>

theorem alt_key_spread_raises:
  "alt_key (contractTradeableObject_init ''stratA'' ''EDOLLAR''
              (Id_list [''201903'', ''201906''])) = Inl TypeError"
  by (simp add: alt_key_def alt_contract_id_key_def contract_id_key_def)

lemma alt_key_single_leg:
  "alt_key (contractTradeableObject_init ''stratA'' ''EDOLLAR'' (Id_str ''201903'')) =
     Inr ''stratA/EDOLLAR/20190300''"
  "alt_key (contractTradeableObject_init ''stratA'' ''EDOLLAR'' (Id_str ''20190300'')) =
     Inr ''stratA/EDOLLAR/201903''"
  by (simp_all add: alt_key_def alt_contract_id_key_def contract_id_key_def)

section \<open>Construction of an order\<close>

lemma init_Inr:
  assumes "contractOrder_init now args kw = Inr ord"
  shows "trade ord = trade_as_list (snd (projr (resolve_args args)))"
    and "fill ord =
           (case kw_fill kw of None \<Rightarrow> replicate (length (trade ord)) 0 | Some f \<Rightarrow> f)"
    and "calendar_spread_order (order_info ord) = (length (trade ord) \<noteq> 1)"
proof -
  obtain t tr where r: "resolve_args args = Inr (t, tr)"
    using assms by (cases "resolve_args args") (auto simp: contractOrder_init_def)
  from assms r show tr: "trade ord = trade_as_list (snd (projr (resolve_args args)))"
    by (auto simp: contractOrder_init_def Let_def)
  from assms r have "fill ord = (case kw_fill kw of
      None \<Rightarrow> replicate (length (trade_as_list tr)) 0 | Some f \<Rightarrow> f)"
    by (auto simp: contractOrder_init_def Let_def)
  with tr r show "fill ord = (case kw_fill kw of
      None \<Rightarrow> replicate (length (trade ord)) 0 | Some f \<Rightarrow> f)"
    by (simp split: option.splits)
  from assms r have "calendar_spread_order (order_info ord) = (length (trade_as_list tr) \<noteq> 1)"
    by (auto simp: contractOrder_init_def Let_def)
  with tr r show "calendar_spread_order (order_info ord) = (length (trade ord) \<noteq> 1)"
    by simp
qed

text \<open>
  Claim C5, as amended. An order constructed without a fill (\<open>fill=None\<close>) has the zero
  fill of the length of its trade, so \<open>len(fill) == len(trade)\<close>; a fill that is supplied
  (as \<open>from_dict\<close> does) is stored as it is. The mutating methods of \<open>contractOrder\<close>
  (the four setters, \<open>add_controlling_algo_ref\<close>, \<open>release_order_from_algo_control\<close>)
  leave fill and trade as they are.
\<close>

theorem fill_length_after_init:
  assumes "contractOrder_init now args kw = Inr ord"
  shows "(kw_fill kw = None \<longrightarrow>
            fill ord = replicate (length (trade ord)) 0 \<and>
            length (fill ord) = length (trade ord)) \<and>
         (\<forall>f. kw_fill kw = Some f \<longrightarrow> fill ord = f) \<and>
         (\<forall>m \<in> {algo_to_use_setter ord a, reference_price_setter ord p,
                 limit_price_setter ord q, manual_fill_setter ord b,
                 snd (add_controlling_algo_ref ord r), release_order_from_algo_control ord}.
            fill m = fill ord \<and> trade m = trade ord)"
  using init_Inr(2) [OF assms]
  by (auto simp: algo_to_use_setter_def reference_price_setter_def limit_price_setter_def
        manual_fill_setter_def add_controlling_algo_ref_def release_order_from_algo_control_def
        split: option.splits)

theorem fill_length_after_init_witness:
  "\<not> isl (contractOrder_init 0
            (Args_key ''stratA/EDOLLAR/201903_201906'' (Trade_list [6, - 6])) default_kwargs) \<and>
   kw_fill default_kwargs = None \<and>
   fill (projr (contractOrder_init 0
            (Args_key ''stratA/EDOLLAR/201903_201906'' (Trade_list [6, - 6])) default_kwargs)) =
     [0, 0] \<and>
   length (trade (projr (contractOrder_init 0
            (Args_key ''stratA/EDOLLAR/201903_201906'' (Trade_list [6, - 6])) default_kwargs))) =
     2"
proof -
  let ?r = "contractOrder_init 0
              (Args_key ''stratA/EDOLLAR/201903_201906'' (Trade_list [6, - 6])) default_kwargs"
  have ok: "?r = Inr (projr ?r)"
    by (simp add: contractOrder_init_def from_key_def Let_def)
  have tr: "length (trade (projr ?r)) = 2"
    by (simp add: contractOrder_init_def from_key_def Let_def)
  have nf: "kw_fill default_kwargs = None" by (simp add: default_kwargs_def)
  from fill_length_after_init [OF ok] nf tr
  have "fill (projr ?r) = [0, 0]" by (simp add: numeral_2_eq_2)
  with ok tr nf show ?thesis by (metis sum.disc(2))
qed

text \<open>
  Claim C5 as it was stated fails for a supplied fill: \<open>from_dict\<close> on the mapping of a
  two-leg order with the fill \<open>[0]\<close> constructs an order with one fill entry and two
  trade entries.
\<close>

theorem fill_length_from_dict_counterexample:
  "\<not> isl (from_dict 0 spread_dict_short_fill) \<and>
   length (fill (projr (from_dict 0 spread_dict_short_fill))) = 1 \<and>
   length (trade (projr (from_dict 0 spread_dict_short_fill))) = 2"
  by (simp add: from_dict_def spread_dict_short_fill_def contractOrder_init_def from_key_def
        Let_def)

text \<open>
  Claim C6. The trade vector of an order has one entry for each leg, so it is not
  empty. For every such order \<open>calendar_spread_order\<close> is true exactly when the trade
  vector has more than one entry, and false when it has exactly one; the value passed as
  \<open>calendar_spread_order\<close> to the constructor changes nothing of the order, so the flag
  follows the length of the trade alone.
\<close>

theorem calendar_spread_order_after_init:
  assumes "contractOrder_init now args kw = Inr ord" and "trade ord \<noteq> []"
  shows "calendar_spread_order (order_info ord) = (1 < length (trade ord)) \<and>
         (length (trade ord) = 1 \<longrightarrow> \<not> calendar_spread_order (order_info ord)) \<and>
         contractOrder_init now args (kw\<lparr>kw_calendar_spread_order := v\<rparr>) = Inr ord"
proof -
  from assms(2) have "0 < length (trade ord)" by simp
  then have "(length (trade ord) \<noteq> 1) = (1 < length (trade ord))" by arith
  with init_Inr(3) [OF assms(1)]
  have flag: "calendar_spread_order (order_info ord) = (1 < length (trade ord))" by simp
  have same: "contractOrder_init now args (kw\<lparr>kw_calendar_spread_order := v\<rparr>) = Inr ord"
    using assms(1)
    by (auto simp: contractOrder_init_def Let_def split: sum.splits prod.splits)
  from flag same show ?thesis by simp
qed

text \<open>
  The two-leg order with the trade \<open>[6, -6]\<close> is a calendar spread also when the
  constructor is told otherwise; the one-leg order with the trade \<open>[6]\<close> is not, also
  when the constructor is told that it is.
\<close>

theorem calendar_spread_order_after_init_witness:
  "\<not> isl (contractOrder_init 0 (Args_parts ''stratA'' ''EDOLLAR''
            (Id_list [''201903'', ''201906'']) (Trade_list [6, - 6])) default_kwargs) \<and>
   trade (projr (contractOrder_init 0 (Args_parts ''stratA'' ''EDOLLAR''
            (Id_list [''201903'', ''201906'']) (Trade_list [6, - 6])) default_kwargs)) =
     [6, - 6] \<and>
   calendar_spread_order (order_info (projr (contractOrder_init 0
      (Args_parts ''stratA'' ''EDOLLAR'' (Id_list [''201903'', ''201906''])
         (Trade_list [6, - 6])) default_kwargs))) \<and>
   contractOrder_init 0 (Args_parts ''stratA'' ''EDOLLAR'' (Id_list [''201903'', ''201906''])
      (Trade_list [6, - 6])) (default_kwargs\<lparr>kw_calendar_spread_order := Some False\<rparr>) =
     contractOrder_init 0 (Args_parts ''stratA'' ''EDOLLAR'' (Id_list [''201903'', ''201906''])
      (Trade_list [6, - 6])) default_kwargs \<and>
   \<not> isl (contractOrder_init 0 (Args_key ''stratA/EDOLLAR/201903'' (Trade_int 6))
            default_kwargs) \<and>
   trade (projr (contractOrder_init 0 (Args_key ''stratA/EDOLLAR/201903'' (Trade_int 6))
            default_kwargs)) = [6] \<and>
   \<not> calendar_spread_order (order_info (projr (contractOrder_init 0
      (Args_key ''stratA/EDOLLAR/201903'' (Trade_int 6)) default_kwargs))) \<and>
   contractOrder_init 0 (Args_key ''stratA/EDOLLAR/201903'' (Trade_int 6))
      (default_kwargs\<lparr>kw_calendar_spread_order := Some True\<rparr>) =
     contractOrder_init 0 (Args_key ''stratA/EDOLLAR/201903'' (Trade_int 6)) default_kwargs"
proof -
  let ?two = "contractOrder_init 0 (Args_parts ''stratA'' ''EDOLLAR''
              (Id_list [''201903'', ''201906'']) (Trade_list [6, - 6])) default_kwargs"
  let ?one = "contractOrder_init 0 (Args_key ''stratA/EDOLLAR/201903'' (Trade_int 6))
              default_kwargs"
  have ok2: "?two = Inr (projr ?two)"
    by (simp add: contractOrder_init_def Let_def)
  have tr2: "trade (projr ?two) = [6, - 6]"
    by (simp add: contractOrder_init_def Let_def)
  then have ne2: "trade (projr ?two) \<noteq> []" by simp
  have ok1: "?one = Inr (projr ?one)"
    by (simp add: contractOrder_init_def from_key_def Let_def)
  have tr1: "trade (projr ?one) = [6]"
    by (simp add: contractOrder_init_def from_key_def Let_def)
  then have ne1: "trade (projr ?one) \<noteq> []" by simp
  from calendar_spread_order_after_init [OF ok2 ne2, of "Some False"] tr2 ok2
  have two: "calendar_spread_order (order_info (projr ?two)) \<and>
      contractOrder_init 0 (Args_parts ''stratA'' ''EDOLLAR''
        (Id_list [''201903'', ''201906'']) (Trade_list [6, - 6]))
        (default_kwargs\<lparr>kw_calendar_spread_order := Some False\<rparr>) = ?two"
    by simp
  from calendar_spread_order_after_init [OF ok1 ne1, of "Some True"] tr1 ok1
  have one: "\<not> calendar_spread_order (order_info (projr ?one)) \<and>
      contractOrder_init 0 (Args_key ''stratA/EDOLLAR/201903'' (Trade_int 6))
        (default_kwargs\<lparr>kw_calendar_spread_order := Some True\<rparr>) = ?one"
    by simp
  from ok2 have "\<not> isl ?two" by (metis sum.disc(2))
  moreover from ok1 have "\<not> isl ?one" by (metis sum.disc(2))
  ultimately show ?thesis using two one tr2 tr1 by blast
qed

section \<open>The base class keeps its state in order\<close>

lemma stack_record_call [simp]: "stack (record_call c s) = stack s"
  by (simp add: record_call_def)

lemma next_id_record_call [simp]: "next_id (record_call c s) = next_id s"
  by (simp add: record_call_def)

lemma journal_record_call [simp]: "journal (record_call c s) = journal s @ [c]"
  by (simp add: record_call_def)

lemma map_of_update_order:
  "map_of (update_order oid f st) k =
     (if k = oid then map_option f (map_of st k) else map_of st k)"
  by (induction st) (auto simp: update_order_def)

lemma update_order_absent: "map_of st oid = None \<Longrightarrow> update_order oid f st = st"
  by (induction st) (auto simp: update_order_def split: if_splits)

lemma delete_order_absent: "map_of st oid = None \<Longrightarrow> delete_order oid st = st"
  by (induction st) (auto simp: delete_order_def split: if_splits)

lemma delete_update_order: "delete_order oid (update_order oid f st) = delete_order oid st"
  by (induction st) (auto simp: delete_order_def update_order_def)

lemma list_all_update_order:
  "list_all (\<lambda>(i, ord). P i) (update_order oid f st) = list_all (\<lambda>(i, ord). P i) st"
  by (induction st) (auto simp: update_order_def split: if_splits)

lemma list_all_delete_order:
  "list_all (\<lambda>(i, ord). P i) st \<Longrightarrow> list_all (\<lambda>(i, ord). P i) (delete_order oid st)"
  by (induction st) (auto simp: delete_order_def)

text \<open>
  Every id on the stack is below the next id: this holds of the empty stack and every
  method of the base class keeps it.
\<close>

lemma ids_below_next_empty: "ids_below_next \<lparr>stack = [], next_id = n, journal = []\<rparr>"
  by (simp add: ids_below_next_def)

lemma ids_below_next_put:
  assumes "ids_below_next s"
  shows "ids_below_next (snd (put_order_on_stack s new_order))"
proof -
  have "list_all (\<lambda>(i, ord). i < next_id s + 1) (stack s)"
    using assms by (auto simp: ids_below_next_def list_all_iff)
  with assms show ?thesis
    by (simp add: put_order_on_stack_def Let_def ids_below_next_def)
qed

lemma ids_below_next_kept:
  assumes "ids_below_next s"
  shows "ids_below_next (snd (unlock_order_on_stack s oid))"
    and "ids_below_next (snd (deactivate_order s oid))"
    and "ids_below_next (snd (remove_order_with_id_from_stack s oid))"
    and "ids_below_next (snd (change_order_on_stack s oid new_order check))"
    and "ids_below_next (snd (get_order_with_id_from_stack s oid))"
  using assms
  by (auto simp: ids_below_next_def unlock_order_on_stack_def deactivate_order_def
        remove_order_with_id_from_stack_def change_order_on_stack_def
        get_order_with_id_from_stack_def Let_def list_all_update_order list_all_delete_order
        split: option.splits)

lemma unlock_fields:
  "stack (snd (unlock_order_on_stack s oid)) =
     update_order oid (\<lambda>ord. ord\<lparr>locked := False\<rparr>) (stack s)"
  "next_id (snd (unlock_order_on_stack s oid)) = next_id s"
  "journal (snd (unlock_order_on_stack s oid)) = journal s @ [Unlock_order oid]"
  by (auto simp: unlock_order_on_stack_def Let_def update_order_absent split: option.splits)

lemma deactivate_fields:
  "stack (snd (deactivate_order s oid)) =
     update_order oid (\<lambda>ord. ord\<lparr>active := False\<rparr>) (stack s)"
  "next_id (snd (deactivate_order s oid)) = next_id s"
  "journal (snd (deactivate_order s oid)) = journal s @ [Deactivate_order oid]"
  by (auto simp: deactivate_order_def Let_def update_order_absent split: option.splits)

lemma remove_fields:
  "stack (snd (remove_order_with_id_from_stack s oid)) = delete_order oid (stack s)"
  "next_id (snd (remove_order_with_id_from_stack s oid)) = next_id s"
  "journal (snd (remove_order_with_id_from_stack s oid)) = journal s @ [Remove_order oid]"
  by (auto simp: remove_order_with_id_from_stack_def Let_def delete_order_absent
        split: option.splits)

lemma put_order_failed:
  assumes "fst (put_order_on_stack s new_order) = Inl e"
  shows "stack (snd (put_order_on_stack s new_order)) = stack s"
    and "next_id (snd (put_order_on_stack s new_order)) = next_id s"
    and "journal (snd (put_order_on_stack s new_order)) = journal s @ [Put_order new_order]"
  using assms by (auto simp: put_order_on_stack_def Let_def split: if_splits)

lemma put_order_stored:
  assumes "put_order_on_stack s new_order = (Inr i, s1)"
  shows "i = next_id s"
    and "stack s1 = stack s @ [(i, new_order\<lparr>order_id := Some i\<rparr>)]"
    and "next_id s1 = next_id s + 1"
    and "journal s1 = journal s @ [Put_order new_order]"
  using assms by (auto simp: put_order_on_stack_def Let_def split: if_splits)

section \<open>Control of an order by an algo\<close>

text \<open>
  Claim C7. An order that already has a controlling algo refuses another one: the
  order's own \<open>add_controlling_algo_ref\<close> raises for any argument and leaves the order
  as it is; the stack's \<open>add_controlling_algo_ref\<close>, called on the id of such an order
  with a reference (a \<open>str\<close>), raises after it has read the order, writes nothing, and
  the stored order keeps its reference.
\<close>

theorem add_controlling_algo_ref_when_controlled:
  assumes "reference_of_controlling_algo (order_info ord) = Some current"
  shows "add_controlling_algo_ref ord new_ref =
           (Inl (Exception (Already_controlled_by current)), ord) \<and>
         (map_of (stack s) oid = Some ord \<longrightarrow>
            stack_add_controlling_algo_ref s oid (Some r) =
              (Inl (Exception (Couldnt_add_controlling_algo
                      (Exception (Already_controlled_by current)) r oid)),
               record_call (Get_order oid) s) \<and>
            map_of (stack (snd (stack_add_controlling_algo_ref s oid (Some r)))) oid =
              Some ord)"
  using assms
  by (simp add: add_controlling_algo_ref_def stack_add_controlling_algo_ref_def
        get_order_with_id_from_stack_def)

theorem add_controlling_algo_ref_when_controlled_witness:
  "reference_of_controlling_algo (order_info controlled_order) = Some ''algo_1'' \<and>
   map_of (stack (stack_of controlled_order)) 0 = Some controlled_order \<and>
   add_controlling_algo_ref controlled_order (Some ''algo_2'') =
     (Inl (Exception (Already_controlled_by ''algo_1'')), controlled_order) \<and>
   stack_add_controlling_algo_ref (stack_of controlled_order) 0 (Some ''algo_2'') =
     (Inl (Exception (Couldnt_add_controlling_algo
             (Exception (Already_controlled_by ''algo_1'')) ''algo_2'' 0)),
      record_call (Get_order 0) (stack_of controlled_order))"
proof -
  have c: "reference_of_controlling_algo (order_info controlled_order) = Some ''algo_1''"
    by (simp add: controlled_order_def)
  have p: "map_of (stack (stack_of controlled_order)) 0 = Some controlled_order"
    by (simp add: stack_of_def)
  from add_controlling_algo_ref_when_controlled
         [OF c, of "Some ''algo_2''" "stack_of controlled_order" 0 "''algo_2''"] c p
  show ?thesis by simp
qed

text \<open>
  Claim C8. For an id on the stack whose order is not controlled by an algo,
  \<open>release_order_from_algo_control\<close> returns success after reading the order and writes
  nothing, so the stored orders are unchanged; a second release does the same again.
\<close>

theorem release_uncontrolled_is_noop:
  assumes "map_of (stack s) oid = Some ord" and "\<not> is_order_controlled_by_algo ord"
  shows "stack_release_order_from_algo_control s oid =
           (Inr success, record_call (Get_order oid) s) \<and>
         stack (snd (stack_release_order_from_algo_control s oid)) = stack s \<and>
         fst (stack_release_order_from_algo_control
                (snd (stack_release_order_from_algo_control s oid)) oid) = Inr success \<and>
         stack (snd (stack_release_order_from_algo_control
                (snd (stack_release_order_from_algo_control s oid)) oid)) =
           stack (snd (stack_release_order_from_algo_control s oid))"
  using assms
  by (simp add: stack_release_order_from_algo_control_def get_order_with_id_from_stack_def)

theorem release_uncontrolled_is_noop_witness:
  "map_of (stack (stack_of uncontrolled_order)) 0 = Some uncontrolled_order \<and>
   \<not> is_order_controlled_by_algo uncontrolled_order \<and>
   stack_release_order_from_algo_control (stack_of uncontrolled_order) 0 =
     (Inr success, record_call (Get_order 0) (stack_of uncontrolled_order))"
proof -
  have p: "map_of (stack (stack_of uncontrolled_order)) 0 = Some uncontrolled_order"
    by (simp add: stack_of_def)
  have u: "\<not> is_order_controlled_by_algo uncontrolled_order"
    by (simp add: is_order_controlled_by_algo_def uncontrolled_order_def example_order_def)
  from release_uncontrolled_is_noop [OF p u] p u show ?thesis by simp
qed

text \<open>
  Claim C10. The stack's \<open>add_controlling_algo_ref\<close> called with \<open>None\<close> is
  \<open>release_order_from_algo_control\<close> on the same id: the same result and the same stack.
  On an id that is on the stack it returns success, and the order stored afterwards is
  the order with its controlling reference cleared.
\<close>

theorem add_None_is_release:
  "stack_add_controlling_algo_ref s oid None = stack_release_order_from_algo_control s oid \<and>
   (\<forall>ord. map_of (stack s) oid = Some ord \<longrightarrow>
      fst (stack_add_controlling_algo_ref s oid None) = Inr success \<and>
      map_of (stack (snd (stack_add_controlling_algo_ref s oid None))) oid =
        Some (release_order_from_algo_control ord))"
proof -
  have eq: "stack_add_controlling_algo_ref s oid None =
      stack_release_order_from_algo_control s oid"
    by (simp add: stack_add_controlling_algo_ref_def)
  have "fst (stack_release_order_from_algo_control s oid) = Inr success \<and>
        map_of (stack (snd (stack_release_order_from_algo_control s oid))) oid =
          Some (release_order_from_algo_control ord)"
    if present: "map_of (stack s) oid = Some ord" for ord
  proof (cases "is_order_controlled_by_algo ord")
    case True
    with present show ?thesis
      by (simp add: stack_release_order_from_algo_control_def get_order_with_id_from_stack_def
            change_order_on_stack_def map_of_update_order)
  next
    case False
    then have "release_order_from_algo_control ord = ord"
      by (simp add: release_order_from_algo_control_def is_order_controlled_by_algo_def)
    with False present show ?thesis
      by (simp add: stack_release_order_from_algo_control_def get_order_with_id_from_stack_def)
  qed
  with eq show ?thesis by simp
qed

theorem add_None_is_release_witness:
  "map_of (stack (stack_of controlled_order)) 0 = Some controlled_order \<and>
   fst (stack_add_controlling_algo_ref (stack_of controlled_order) 0 None) = Inr success \<and>
   map_of (stack (snd (stack_add_controlling_algo_ref (stack_of controlled_order) 0 None))) 0 =
     Some uncontrolled_order"
proof -
  have p: "map_of (stack (stack_of controlled_order)) 0 = Some controlled_order"
    by (simp add: stack_of_def)
  have u: "release_order_from_algo_control controlled_order = uncontrolled_order"
    by (simp add: release_order_from_algo_control_def controlled_order_def
          uncontrolled_order_def example_order_def)
  from add_None_is_release
         [of "stack_of controlled_order" 0, THEN conjunct2, rule_format, OF p] p u
  show ?thesis by simp
qed

section \<open>Putting a list of orders on the stack\<close>

text \<open>
  Claim C9. \<open>put_list_of_orders_on_stack\<close> on the empty list returns the empty list of
  ids and the state it was given: no order changes and the journal records no call, so
  the store is neither read nor written.
\<close>

theorem put_empty_list_is_noop:
  "put_list_of_orders_on_stack s [] unlock_when_finished = (Inr [], s)"
  by (simp add: put_list_of_orders_on_stack_def)

subsection \<open>The rollback\<close>

lemma rollback_fields:
  "stack (snd (rollback_list_of_orders_on_stack s ids)) =
     filter (\<lambda>(i, ord). i \<notin> set ids) (stack s) \<and>
   next_id (snd (rollback_list_of_orders_on_stack s ids)) = next_id s \<and>
   journal (snd (rollback_list_of_orders_on_stack s ids)) =
     journal s @ concat (map rollback_calls ids)"
proof (induction ids arbitrary: s)
  case Nil
  show ?case by simp
next
  case (Cons oid rest)
  let ?s3 = "snd (remove_order_with_id_from_stack
                (snd (deactivate_order (snd (unlock_order_on_stack s oid)) oid)) oid)"
  have st: "stack ?s3 = delete_order oid (stack s)"
    by (simp add: remove_fields deactivate_fields unlock_fields delete_update_order)
  have nx: "next_id ?s3 = next_id s"
    by (simp add: remove_fields deactivate_fields unlock_fields)
  have jn: "journal ?s3 = journal s @ rollback_calls oid"
    by (simp add: remove_fields deactivate_fields unlock_fields rollback_calls_def)
  have fl: "filter (\<lambda>(i, ord). i \<notin> set rest) (delete_order oid (stack s)) =
            filter (\<lambda>(i, ord). i \<notin> set (oid # rest)) (stack s)"
    by (auto simp: delete_order_def intro: filter_cong)
  from Cons.IH [of ?s3] st nx jn fl show ?case
    by (simp add: Let_def)
qed

lemma filter_fresh_suffix:
  fixes n :: int
  assumes "list_all (\<lambda>(i, ord). i < n) old" and "\<forall>i \<in> set (map fst new). n \<le> i"
  shows "filter (\<lambda>(i, ord). i \<notin> set (map fst new)) (old @ new) = old"
proof -
  have "i \<notin> set (map fst new)" if "(i, ord) \<in> set old" for i ord
  proof
    assume "i \<in> set (map fst new)"
    with assms(2) have "n \<le> i" by blast
    moreover from that assms(1) have "i < n" by (auto simp: list_all_iff)
    ultimately show False by simp
  qed
  then have "filter (\<lambda>(i, ord). i \<notin> set (map fst new)) old = old"
    by (auto simp: filter_id_conv)
  moreover have "filter (\<lambda>(i, ord). i \<notin> set (map fst new)) new = []"
    by (force simp: filter_empty_conv)
  ultimately show ?thesis by simp
qed

subsection \<open>The loop\<close>

text \<open>
  A loop that is left with \<open>success\<close> has put every order: the stack has grown by one
  entry for each, under the ids the loop collected, all of them fresh.
\<close>

lemma insert_loop_success:
  assumes "insert_loop s pre acc = (success, ids, s1)"
  shows "\<exists>new. stack s1 = stack s @ new \<and> ids = acc @ map fst new \<and>
           (\<forall>i \<in> set (map fst new). next_id s \<le> i) \<and> length new = length pre \<and>
           next_id s \<le> next_id s1 \<and>
           journal s1 = journal s @ map (\<lambda>ord. Put_order (lock_order ord)) pre"
  using assms
proof (induction pre arbitrary: s acc)
  case Nil
  then show ?case by simp
next
  case (Cons ord pre)
  obtain r s' where put: "put_order_on_stack s (lock_order ord) = (r, s')"
    by (cases "put_order_on_stack s (lock_order ord)")
  show ?case
  proof (cases r)
    case (Inl e)
    with put Cons.prems show ?thesis by simp
  next
    case (Inr i)
    with put Cons.prems have loop: "insert_loop s' pre (acc @ [i]) = (success, ids, s1)"
      by simp
    from put Inr have stored: "put_order_on_stack s (lock_order ord) = (Inr i, s')" by simp
    note p = put_order_stored [OF stored]
    from Cons.IH [OF loop] obtain new where new:
      "stack s1 = stack s' @ new" "ids = (acc @ [i]) @ map fst new"
      "\<forall>i \<in> set (map fst new). next_id s' \<le> i" "length new = length pre"
      "next_id s' \<le> next_id s1"
      "journal s1 = journal s' @ map (\<lambda>ord. Put_order (lock_order ord)) pre"
      by blast
    let ?new = "(i, (lock_order ord)\<lparr>order_id := Some i\<rparr>) # new"
    have "stack s1 = stack s @ ?new" using new(1) p(2) by simp
    moreover have "ids = acc @ map fst ?new" using new(2) by simp
    moreover have "\<forall>j \<in> set (map fst ?new). next_id s \<le> j"
      using new(3) p(1) p(3) by auto
    moreover have "length ?new = length (ord # pre)" using new(4) by simp
    moreover have "next_id s \<le> next_id s1" using new(5) p(3) by simp
    moreover have "journal s1 =
        journal s @ map (\<lambda>ord. Put_order (lock_order ord)) (ord # pre)"
      using new(6) p(4) by simp
    ultimately show ?thesis by blast
  qed
qed

lemma insert_loop_append:
  assumes "insert_loop s pre acc = (success, ids, s1)"
  shows "insert_loop s (pre @ xs) acc = insert_loop s1 xs ids"
  using assms
proof (induction pre arbitrary: s acc)
  case Nil
  then show ?case by simp
next
  case (Cons ord pre)
  then show ?case
    by (cases "put_order_on_stack s (lock_order ord)") (auto split: sum.splits)
qed

subsection \<open>A batch that fails\<close>

text \<open>
  Claim C1. Take a list of orders in which \<open>bad\<close> is the first order that
  \<open>put_order_on_stack\<close> refuses: the orders \<open>pre\<close> before it were all put, under the ids
  \<open>ids\<close>, and the orders \<open>rest\<close> follow it. On a stack whose ids are below its next id,
  \<open>put_list_of_orders_on_stack\<close> returns \<open>failure\<close>; the base class sees the puts of
  \<open>pre\<close> and of \<open>bad\<close> and none of \<open>rest\<close>, then unlock, deactivate and remove for each
  of \<open>ids\<close> in turn, which are the ids the puts added to the stack; and the stack holds
  the orders it held before the call.
\<close>

theorem failed_batch_is_rolled_back:
  assumes "ids_below_next s"
    and "insert_loop s pre [] = (success, ids, s1)"
    and "fst (put_order_on_stack s1 (lock_order bad)) = Inl not_an_id"
  shows "fst (put_list_of_orders_on_stack s (pre @ bad # rest) unlock_when_finished) =
           Inl failure \<and>
         stack (snd (put_list_of_orders_on_stack s (pre @ bad # rest) unlock_when_finished)) =
           stack s \<and>
         journal (snd (put_list_of_orders_on_stack s (pre @ bad # rest) unlock_when_finished)) =
           journal s @ map (\<lambda>ord. Put_order (lock_order ord)) (pre @ [bad]) @
             concat (map rollback_calls ids) \<and>
         length ids = length pre \<and>
         map fst (stack s1) = map fst (stack s) @ ids"
proof -
  let ?s2 = "snd (put_order_on_stack s1 (lock_order bad))"
  from insert_loop_success [OF assms(2)] obtain new where new:
    "stack s1 = stack s @ new" "ids = map fst new"
    "\<forall>i \<in> set (map fst new). next_id s \<le> i" "length new = length pre"
    "journal s1 = journal s @ map (\<lambda>ord. Put_order (lock_order ord)) pre"
    by auto
  note f = put_order_failed [OF assms(3)]
  have "insert_loop s1 (bad # rest) ids = (failure, ids, ?s2)"
    using assms(3) by (cases "put_order_on_stack s1 (lock_order bad)") auto
  with insert_loop_append [OF assms(2), of "bad # rest"]
  have loop: "insert_loop s (pre @ bad # rest) [] = (failure, ids, ?s2)" by simp
  then have res: "put_list_of_orders_on_stack s (pre @ bad # rest) unlock_when_finished =
      (Inl failure, snd (rollback_list_of_orders_on_stack ?s2 ids))"
    by (simp add: put_list_of_orders_on_stack_def)
  have old: "list_all (\<lambda>(i, ord). i < next_id s) (stack s)"
    using assms(1) by (simp add: ids_below_next_def)
  have "stack (snd (rollback_list_of_orders_on_stack ?s2 ids)) = stack s"
    using rollback_fields [of ?s2 ids] f(1) new(1,2) filter_fresh_suffix [OF old new(3)]
    by simp
  moreover have "journal (snd (rollback_list_of_orders_on_stack ?s2 ids)) =
      journal s @ map (\<lambda>ord. Put_order (lock_order ord)) (pre @ [bad]) @
        concat (map rollback_calls ids)"
    using rollback_fields [of ?s2 ids] f(3) new(5) by simp
  moreover have "length ids = length pre" using new(2,4) by simp
  moreover have "map fst (stack s1) = map fst (stack s) @ ids" using new(1,2) by simp
  ultimately show ?thesis using res by simp
qed

text \<open>
  The stack holds the order for \<open>201903\<close> under id 0. Of the batch \<open>201906\<close>, \<open>201903\<close>,
  \<open>201909\<close> the first order is put under id 1, the second duplicates the order on the
  stack and is refused, and the third is never put.
\<close>

theorem failed_batch_is_rolled_back_witness:
  "ids_below_next (stack_of uncontrolled_order) \<and>
   fst (insert_loop (stack_of uncontrolled_order) [example_order ''201906'' 5] []) = success \<and>
   fst (snd (insert_loop (stack_of uncontrolled_order) [example_order ''201906'' 5] [])) =
     [1] \<and>
   fst (put_order_on_stack
          (snd (snd (insert_loop (stack_of uncontrolled_order) [example_order ''201906'' 5] [])))
          (lock_order (example_order ''201903'' 10))) = Inl duplicate_order \<and>
   fst (put_list_of_orders_on_stack (stack_of uncontrolled_order)
          [example_order ''201906'' 5, example_order ''201903'' 10, example_order ''201909'' 7]
          True) = Inl failure \<and>
   stack (snd (put_list_of_orders_on_stack (stack_of uncontrolled_order)
          [example_order ''201906'' 5, example_order ''201903'' 10, example_order ''201909'' 7]
          True)) = [(0, uncontrolled_order)] \<and>
   journal (snd (put_list_of_orders_on_stack (stack_of uncontrolled_order)
          [example_order ''201906'' 5, example_order ''201903'' 10, example_order ''201909'' 7]
          True)) =
     [Put_order (lock_order (example_order ''201906'' 5)),
      Put_order (lock_order (example_order ''201903'' 10)),
      Unlock_order 1, Deactivate_order 1, Remove_order 1]"
proof -
  let ?loop = "insert_loop (stack_of uncontrolled_order) [example_order ''201906'' 5] []"
  have ev: "?loop =
      (success, [1],
       \<lparr>stack = [(0, uncontrolled_order),
                 (1, (lock_order (example_order ''201906'' 5))\<lparr>order_id := Some 1\<rparr>)],
        next_id = 2, journal = [Put_order (lock_order (example_order ''201906'' 5))]\<rparr>)"
    by (simp add: put_order_on_stack_def record_call_def stack_of_def uncontrolled_order_def
          duplicates_def example_order_def lock_order_def key_def contract_id_key_def
          same_trade_size_def)
  have h1: "ids_below_next (stack_of uncontrolled_order)"
    by (simp add: ids_below_next_def stack_of_def)
  have h2: "?loop = (success, [1], snd (snd ?loop))"
    unfolding ev by simp
  have h3: "fst (put_order_on_stack (snd (snd ?loop))
                   (lock_order (example_order ''201903'' 10))) = Inl duplicate_order"
    unfolding ev
    by (simp add: put_order_on_stack_def record_call_def uncontrolled_order_def
          duplicates_def example_order_def lock_order_def key_def contract_id_key_def
          same_trade_size_def)
  have c1: "fst ?loop = success" and c2: "fst (snd ?loop) = [1]"
    unfolding ev by simp_all
  have j: "journal (stack_of uncontrolled_order) = []"
    and st: "stack (stack_of uncontrolled_order) = [(0, uncontrolled_order)]"
    by (simp_all add: stack_of_def)
  from failed_batch_is_rolled_back [OF h1 h2 h3, of "[example_order ''201909'' 7]" True] j st
  have "fst (put_list_of_orders_on_stack (stack_of uncontrolled_order)
          [example_order ''201906'' 5, example_order ''201903'' 10, example_order ''201909'' 7]
          True) = Inl failure \<and>
   stack (snd (put_list_of_orders_on_stack (stack_of uncontrolled_order)
          [example_order ''201906'' 5, example_order ''201903'' 10, example_order ''201909'' 7]
          True)) = [(0, uncontrolled_order)] \<and>
   journal (snd (put_list_of_orders_on_stack (stack_of uncontrolled_order)
          [example_order ''201906'' 5, example_order ''201903'' 10, example_order ''201909'' 7]
          True)) =
     [Put_order (lock_order (example_order ''201906'' 5)),
      Put_order (lock_order (example_order ''201903'' 10)),
      Unlock_order 1, Deactivate_order 1, Remove_order 1]"
    by (simp add: rollback_calls_def del: insert_loop.simps)
  with h1 c1 c2 h3 show ?thesis by blast
qed

end
